theory Spec2Isabelle
  imports Main
begin

section \<open>JavaScript values\<close>

text \<open>
  The service of \<^verbatim>\<open>src/services/http_request_service.ts\<close> works on values typed
  \<^verbatim>\<open>any\<close>. They are embedded as the datatype below. Numbers are restricted to integers
  (the configuration counts megabytes, \<^verbatim>\<open>parseInt\<close> yields integers); \<^verbatim>\<open>NaN\<close> is the
  \<open>None\<close> of an \<open>int option\<close> where it can arise. A string is a list of 8-bit code
  units. \<open>JPromise v\<close> is a promise fulfilled with \<open>v\<close>, which is what calling an
  \<^verbatim>\<open>async\<close> method returns. \<open>JBuiltin n\<close> is a member \<open>n\<close> of a built-in prototype object.
\<close>

datatype jsval =
    JUndefined
  | JNull
  | JBool bool
  | JNum int
  | JStr string
  | JArr "jsval list"
  | JObj "(string \<times> jsval) list"
  | JPromise jsval
  | JBuiltin string

type_synonym jsobj = "(string \<times> jsval) list"

text \<open>\<^verbatim>\<open>ToBoolean\<close>: what \<^verbatim>\<open>if (v)\<close>, \<^verbatim>\<open>!v\<close>, \<^verbatim>\<open>v ? a : b\<close> and \<^verbatim>\<open>v && w\<close> test.
  Every object is truthy, a promise included.\<close>

fun ToBoolean :: "jsval \<Rightarrow> bool" where
  "ToBoolean JUndefined = False"
| "ToBoolean JNull = False"
| "ToBoolean (JBool b) = b"
| "ToBoolean (JNum n) = (n \<noteq> 0)"
| "ToBoolean (JStr s) = (s \<noteq> [])"
| "ToBoolean (JArr xs) = True"
| "ToBoolean (JObj kvs) = True"
| "ToBoolean (JPromise v) = True"
| "ToBoolean (JBuiltin n) = True"

datatype error =
    TypeError
  | SyntaxError
  | Failure string
  | Error string error

section \<open>Strings\<close>

fun starts_with :: "string \<Rightarrow> string \<Rightarrow> bool" where
  "starts_with [] s = True"
| "starts_with (p # ps) [] = False"
| "starts_with (p # ps) (c # cs) = (p = c \<and> starts_with ps cs)"

text \<open>\<^verbatim>\<open>s.includes(p)\<close>\<close>

fun includes_str :: "string \<Rightarrow> string \<Rightarrow> bool" where
  "includes_str [] p = (p = [])"
| "includes_str (c # cs) p = (starts_with p (c # cs) \<or> includes_str cs p)"

text \<open>\<^verbatim>\<open>s.split(sep)\<close> for a separator of one character: the pieces between the
  separators, of which there is always at least one.\<close>

fun split :: "char \<Rightarrow> string \<Rightarrow> string list" where
  "split sep [] = [[]]"
| "split sep (c # cs) =
     (if c = sep then [] # split sep cs
      else (case split sep cs of p # ps \<Rightarrow> (c # p) # ps | [] \<Rightarrow> [[c]]))"

text \<open>\<^verbatim>\<open>xs[i]\<close> on an array of strings: \<^verbatim>\<open>undefined\<close> out of range.\<close>

definition at_index :: "string list \<Rightarrow> nat \<Rightarrow> jsval" where
  "at_index xs i = (if i < length xs then JStr (xs ! i) else JUndefined)"

text \<open>The white space of \<^verbatim>\<open>parseInt\<close> and of the regular expression class \<^verbatim>\<open>\s\<close>,
  within 8-bit code units: TAB, LF, VT, FF, CR, SP, NBSP.\<close>

definition white_space :: "char \<Rightarrow> bool" where
  "white_space c = (c \<in> set [CHR 0x09, CHR 0x0A, CHR 0x0B, CHR 0x0C, CHR 0x0D, CHR 0x20, CHR 0xA0])"

text \<open>The value of a digit in a radix, if it is one.\<close>

definition digit_value :: "nat \<Rightarrow> char \<Rightarrow> nat option" where
  "digit_value radix c =
     (let n = (of_char c :: nat);
          v = (if 48 \<le> n \<and> n \<le> 57 then Some (n - 48)
               else if 97 \<le> n \<and> n \<le> 122 then Some (n - 87)
               else if 65 \<le> n \<and> n \<le> 90 then Some (n - 55)
               else None)
      in case v of None \<Rightarrow> None | Some d \<Rightarrow> (if d < radix then Some d else None))"

definition digits_value :: "nat \<Rightarrow> string \<Rightarrow> nat" where
  "digits_value radix z =
     foldl (\<lambda>acc c. acc * radix + (case digit_value radix c of Some d \<Rightarrow> d | None \<Rightarrow> 0)) 0 z"

text \<open>
  The built-in \<^verbatim>\<open>parseInt(string)\<close> with no radix argument (ECMAScript, 18.2.5): the
  argument is converted to a string (\<^verbatim>\<open>null\<close> becomes \<^verbatim>\<open>"null"\<close>), leading white space
  and one sign are dropped, a prefix \<^verbatim>\<open>0x\<close> or \<^verbatim>\<open>0X\<close> selects radix 16, and the longest
  prefix of digits is the number; what follows is ignored. With no digit the result is
  \<^verbatim>\<open>NaN\<close>, here \<open>None\<close>. The argument is a header value: a string or \<^verbatim>\<open>null\<close>.
\<close>

definition parseInt :: "string option \<Rightarrow> int option" where
  "parseInt v =
     (let inputString = (case v of None \<Rightarrow> ''null'' | Some s \<Rightarrow> s);
          S = dropWhile white_space inputString;
          sign = (if starts_with ''-'' S then - 1 else (1 :: int));
          S1 = (if starts_with ''+'' S \<or> starts_with ''-'' S then tl S else S);
          hex = (starts_with ''0x'' S1 \<or> starts_with ''0X'' S1);
          R = (if hex then 16 else 10);
          S2 = (if hex then drop 2 S1 else S1);
          Z = takeWhile (\<lambda>c. digit_value R c \<noteq> None) S2
      in if Z = [] then None else Some (sign * int (digits_value R Z)))"

text \<open>\<^verbatim>\<open>x > 0\<close> for the result of \<^verbatim>\<open>parseInt\<close>: every comparison with \<^verbatim>\<open>NaN\<close> is false.\<close>

definition greater_zero :: "int option \<Rightarrow> bool" where
  "greater_zero x = (case x of None \<Rightarrow> False | Some n \<Rightarrow> 0 < n)"

section \<open>Options, parsed bodies and the collaborators\<close>

text \<open>
  The options of \<^verbatim>\<open>hydrate\<close> and \<^verbatim>\<open>parseBody\<close>. Every property may be missing;
  \<open>memory_allocation\<close> is an object of its own with one property, a number of megabytes.
\<close>

record memory_allocation_obj =
  multipart_form_data :: "int option"

record options =
  headers :: "(string \<times> string) list option"
  default_response_content_type :: "string option"
  memory_allocation :: "memory_allocation_obj option"

text \<open>The interface \<^verbatim>\<open>ParsedBody\<close> (lines 7-10).\<close>

record ParsedBody =
  content_type :: jsval
  data :: jsval

text \<open>
  What the service calls and the sources do not contain is a parameter of the model:
  \<^item> \<open>parseQueryParamsString\<close> is \<^verbatim>\<open>StringService.parseQueryParamsString\<close> of
    \<^verbatim>\<open>src/services/string_service.ts\<close>; its argument is a string or \<^verbatim>\<open>null\<close>, its
    result a mapping, and it may throw;
  \<^item> \<open>JSON_parse\<close> is the built-in \<^verbatim>\<open>JSON.parse\<close>;
  \<^item> \<open>readForm\<close> is \<^verbatim>\<open>new MultipartReader(body, boundary).readForm(maxMemory)\<close> of the
    runtime's library: from the unread bytes of the stream, the boundary and the memory
    limit to the form (or the error thrown) and the bytes it leaves unread;
  \<^item> \<open>inherited\<close> is the property lookup in the prototype of a value, for the
    properties that are not the value's own.
\<close>

record env =
  parseQueryParamsString :: "jsval \<Rightarrow> error + jsobj"
  JSON_parse :: "string \<Rightarrow> error + jsval"
  readForm :: "string \<Rightarrow> string \<Rightarrow> int \<Rightarrow> (error + jsobj) \<times> string"
  inherited :: "jsval \<Rightarrow> string \<Rightarrow> jsval option"

text \<open>An array index as a property name: a decimal numeral without leading zero.\<close>

definition index_of_key :: "string \<Rightarrow> nat option" where
  "index_of_key k =
     (if k = ''0'' then Some 0
      else if k \<noteq> [] \<and> filter (\<lambda>c. digit_value 10 c = None) k = [] \<and> \<not> starts_with ''0'' k
      then Some (digits_value 10 k)
      else None)"

text \<open>The own properties of a value: the entries of an object, the length and the
  elements of an array or a string.\<close>

fun own_property :: "jsval \<Rightarrow> string \<Rightarrow> jsval option" where
  "own_property (JObj kvs) k = map_of kvs k"
| "own_property (JArr xs) k =
     (if k = ''length'' then Some (JNum (int (length xs)))
      else case index_of_key k of
             None \<Rightarrow> None
           | Some i \<Rightarrow> (if i < length xs then Some (xs ! i) else None))"
| "own_property (JStr s) k =
     (if k = ''length'' then Some (JNum (int (length s)))
      else case index_of_key k of
             None \<Rightarrow> None
           | Some i \<Rightarrow> (if i < length s then Some (JStr [s ! i]) else None))"
| "own_property v k = None"

text \<open>The value of \<^verbatim>\<open>v[k]\<close> where \<open>v\<close> is neither \<^verbatim>\<open>undefined\<close> nor \<^verbatim>\<open>null\<close>.\<close>

definition property_value :: "env \<Rightarrow> jsval \<Rightarrow> string \<Rightarrow> jsval" where
  "property_value env v k =
     (case own_property v k of
        Some x \<Rightarrow> x
      | None \<Rightarrow> (case inherited env v k of Some x \<Rightarrow> x | None \<Rightarrow> JUndefined))"

text \<open>\<^verbatim>\<open>v[k]\<close> and \<^verbatim>\<open>v.k\<close>: a \<^verbatim>\<open>TypeError\<close> on \<^verbatim>\<open>undefined\<close> and on \<^verbatim>\<open>null\<close>.\<close>

definition Get :: "env \<Rightarrow> jsval \<Rightarrow> string \<Rightarrow> error + jsval" where
  "Get env v k =
     (if v = JUndefined \<or> v = JNull then Inl TypeError else Inr (property_value env v k))"

section \<open>Requests\<close>

text \<open>
  The header object of a request (\<^verbatim>\<open>Headers\<close> of the runtime) keeps its entries under
  lower-cased names; \<^verbatim>\<open>get\<close> and \<^verbatim>\<open>set\<close> lower-case the name they are given, and
  \<^verbatim>\<open>get\<close> answers \<^verbatim>\<open>null\<close> (\<open>None\<close>) for a name that has no entry.
\<close>

type_synonym headers = "string \<rightharpoonup> string"

definition lower_char :: "char \<Rightarrow> char" where
  "lower_char c =
     (case map_of (zip ''ABCDEFGHIJKLMNOPQRSTUVWXYZ'' ''abcdefghijklmnopqrstuvwxyz'') c of
        Some l \<Rightarrow> l
      | None \<Rightarrow> c)"

definition headers_get :: "headers \<Rightarrow> string \<Rightarrow> string option" where
  "headers_get hs name = hs (map lower_char name)"

definition headers_set :: "headers \<Rightarrow> string \<Rightarrow> string \<Rightarrow> headers" where
  "headers_set hs name v = hs(map lower_char name \<mapsto> v)"

text \<open>A header value as a JavaScript value.\<close>

definition js_of :: "string option \<Rightarrow> jsval" where
  "js_of v = (case v of None \<Rightarrow> JNull | Some s \<Rightarrow> JStr s)"

text \<open>
  The request object. \<open>body\<close> is the body stream: the bytes that have not been read
  yet. \<open>url_path\<close>, \<open>url_query_params\<close> and \<open>response_content_type\<close> are the properties
  \<^verbatim>\<open>hydrate\<close> attaches; \<open>url_query_params\<close> is read only after \<^verbatim>\<open>hydrate\<close> has stored
  the object of \<^verbatim>\<open>getUrlQueryParams\<close> there. \<open>parsed_body\<close> is \<open>JUndefined\<close> unless
  the caller has set it.
\<close>

record request =
  url :: string
  headers :: headers
  body :: string
  path_params :: jsobj
  parsed_body :: jsval
  url_path :: jsval
  url_query_params :: jsobj
  response_content_type :: jsval

section \<open>The service\<close>

text \<open>\<^verbatim>\<open>getUrlQueryString\<close> (lines 203-217). \<^verbatim>\<open>split\<close> does not throw on a string,
  so the \<^verbatim>\<open>catch\<close> is never entered.\<close>

definition getUrlQueryString :: "request \<Rightarrow> jsval" where
  "getUrlQueryString r =
     (let queryString = JNull in
      if CHR ''?'' \<notin> set (url r) then queryString
      else at_index (split (CHR ''?'') (url r)) 1)"

text \<open>\<^verbatim>\<open>hasBody\<close> (lines 226-232), an \<^verbatim>\<open>async\<close> method: its result is a promise.\<close>

definition hasBody_value :: "request \<Rightarrow> bool" where
  "hasBody_value r =
     (let ret = greater_zero (parseInt (headers_get (request.headers r) ''content-length'')) in
      if \<not> ret then greater_zero (parseInt (headers_get (request.headers r) ''Content-Length''))
      else ret)"

definition hasBody :: "request \<Rightarrow> jsval" where
  "hasBody r = JPromise (JBool (hasBody_value r))"

text \<open>The accessors of lines 40-86.\<close>

definition getRequestBodyFile :: "env \<Rightarrow> ParsedBody \<Rightarrow> string \<Rightarrow> error + jsval" where
  "getRequestBodyFile env parsedBody input = Get env (data parsedBody) input"

definition getRequestBodyParam :: "env \<Rightarrow> ParsedBody \<Rightarrow> string \<Rightarrow> error + jsval" where
  "getRequestBodyParam env parsedBody input = Get env (data parsedBody) input"

definition getRequestHeaderParam :: "request \<Rightarrow> string \<Rightarrow> jsval" where
  "getRequestHeaderParam r input = js_of (headers_get (request.headers r) input)"

definition getRequestPathParam :: "env \<Rightarrow> request \<Rightarrow> string \<Rightarrow> error + jsval" where
  "getRequestPathParam env r input = Get env (JObj (path_params r)) input"

definition getRequestQueryParam :: "env \<Rightarrow> request \<Rightarrow> string \<Rightarrow> error + jsval" where
  "getRequestQueryParam env r input = Get env (JObj (url_query_params r)) input"

text \<open>
  \<^verbatim>\<open>getResponseContentType\<close> (lines 110-145). The second argument is \<open>None\<close> when the
  caller passes none (or \<^verbatim>\<open>undefined\<close>): the parameter's default applies then. The local
  variable \<^verbatim>\<open>contentType\<close> is assigned three times, in the order of the source.
\<close>

definition getResponseContentType :: "env \<Rightarrow> request \<Rightarrow> string option \<Rightarrow> error + jsval" where
  "getResponseContentType env r arg =
     (let defaultContentType = (case arg of None \<Rightarrow> ''application/json'' | Some d \<Rightarrow> d);
          defaultContentType =
            (if defaultContentType \<noteq> [] then defaultContentType else ''application/json'');
          contentType = JNull;
          header = js_of (headers_get (request.headers r) ''Response-Content-Type'');
          contentType = (if ToBoolean header then header else contentType)
      in case Get env (JObj (url_query_params r)) ''response_content_type'' of
           Inl e \<Rightarrow> Inl e
         | Inr param \<Rightarrow>
             (let contentType = (if ToBoolean param then param else contentType) in
              case (if ToBoolean (parsed_body r)
                    then Get env (parsed_body r) ''response_content_type''
                    else Inr (parsed_body r)) of
                Inl e \<Rightarrow> Inl e
              | Inr field \<Rightarrow>
                  (let contentType = (if ToBoolean field then field else contentType);
                       contentType =
                         (if \<not> ToBoolean contentType then JStr defaultContentType
                          else contentType)
                   in Inr contentType)))"

text \<open>\<^verbatim>\<open>getUrlPath\<close> (lines 154-172).\<close>

definition getUrlPath :: "request \<Rightarrow> jsval" where
  "getUrlPath r =
     (let path = url r in
      if path = ''/'' then JStr path
      else if CHR ''?'' \<notin> set (url r) then JStr path
      else at_index (split (CHR ''?'') (url r)) 0)"

text \<open>\<^verbatim>\<open>getUrlQueryParams\<close> (lines 184-193): an error of the parser is swallowed.\<close>

definition getUrlQueryParams :: "env \<Rightarrow> request \<Rightarrow> jsobj" where
  "getUrlQueryParams env r =
     (let queryParams = [] in
      case parseQueryParamsString env (getUrlQueryString r) of
        Inl e \<Rightarrow> queryParams
      | Inr q \<Rightarrow> q)"

text \<open>\<^verbatim>\<open>setHeaders\<close> (lines 414-420).\<close>

definition setHeaders :: "request \<Rightarrow> (string \<times> string) list \<Rightarrow> request" where
  "setHeaders r hs =
     r\<lparr>request.headers := foldl (\<lambda>h (key, v). headers_set h key v) (request.headers r) hs\<rparr>"

text \<open>
  The three decoders (lines 372-405). \<^verbatim>\<open>Deno.readAll(request.body)\<close> takes every unread
  byte of the stream and leaves it empty; the second component of the result is the
  request afterwards.
\<close>

definition parseBodyAsFormUrlEncoded :: "env \<Rightarrow> request \<Rightarrow> (error + jsobj) \<times> request" where
  "parseBodyAsFormUrlEncoded env r =
     (let text = body r;
          r' = r\<lparr>body := []\<rparr>;
          text = (if CHR ''?'' \<in> set text then at_index (split (CHR ''?'') text) 1 else JStr text)
      in case text of
           JStr t \<Rightarrow> (parseQueryParamsString env (JStr (filter (\<lambda>c. c \<noteq> CHR 0x22) t)), r')
         | _ \<Rightarrow> (Inl TypeError, r'))"

definition parseBodyAsJson :: "env \<Rightarrow> request \<Rightarrow> (error + jsval) \<times> request" where
  "parseBodyAsJson env r = (JSON_parse env (body r), r\<lparr>body := []\<rparr>)"

definition parseBodyAsMultipartFormData ::
  "env \<Rightarrow> request \<Rightarrow> string \<Rightarrow> int \<Rightarrow> (error + jsobj) \<times> request" where
  "parseBodyAsMultipartFormData env r boundary maxMemory =
     (case readForm env (body r) boundary maxMemory of
        (res, unread) \<Rightarrow> (res, r\<lparr>body := unread\<rparr>))"

text \<open>\<^verbatim>\<open>contentType.match(/boundary=([^\s]+)/)\<close>: the first group of the leftmost match,
  \<open>None\<close> when nothing matches (\<^verbatim>\<open>match\<close> answers \<^verbatim>\<open>null\<close> then).\<close>

fun match_boundary :: "string \<Rightarrow> string option" where
  "match_boundary [] = None"
| "match_boundary (c # cs) =
     (let g = takeWhile (\<lambda>x. \<not> white_space x) (drop 9 (c # cs)) in
      if starts_with ''boundary='' (c # cs) \<and> g \<noteq> [] then Some g
      else match_boundary cs)"

text \<open>
  \<^verbatim>\<open>parseBody\<close> (lines 287-364). After the options are normalised the method is four
  \<^verbatim>\<open>if\<close> statements in a row; each is a function here, from the request and \<^verbatim>\<open>ret\<close>
  before it to the error it throws or \<^verbatim>\<open>ret\<close> after it, and the request after it. An error
  caught inside a branch is thrown again inside an \<^verbatim>\<open>Error\<close> whose message starts as given.
\<close>

definition no_content_type_branch ::
  "env \<Rightarrow> string option \<Rightarrow> request \<Rightarrow> ParsedBody \<Rightarrow> (error + ParsedBody) \<times> request" where
  "no_content_type_branch env contentType r ret =
     (if \<not> ToBoolean (js_of contentType) then
        (case parseBodyAsFormUrlEncoded env r of
           (Inl e, r') \<Rightarrow>
             (Inl (Error ''Error reading request body. No Content-Type header was specified.'' e), r')
         | (Inr d, r') \<Rightarrow>
             (Inr (ret\<lparr>data := JObj d,
                       content_type := JStr ''application/x-www-form-urlencoded''\<rparr>), r'))
      else (Inr ret, r))"

definition multipart_branch ::
  "env \<Rightarrow> string option \<Rightarrow> int \<Rightarrow> request \<Rightarrow> ParsedBody \<Rightarrow> (error + ParsedBody) \<times> request" where
  "multipart_branch env contentType maxMemory r ret =
     (case contentType of
        None \<Rightarrow> (Inr ret, r)
      | Some ct \<Rightarrow>
          (if ct \<noteq> [] \<and> includes_str ct ''multipart/form-data'' then
             (case match_boundary ct of
                None \<Rightarrow>
                  (Inl (Error ''Error reading request body as multipart/form-data.'' TypeError), r)
              | Some boundary \<Rightarrow>
                  (case parseBodyAsMultipartFormData env r boundary maxMemory of
                     (Inl e, r') \<Rightarrow>
                       (Inl (Error ''Error reading request body as multipart/form-data.'' e), r')
                   | (Inr d, r') \<Rightarrow>
                       (Inr (ret\<lparr>data := JObj d, content_type := JStr ''multipart/form-data''\<rparr>),
                        r')))
           else (Inr ret, r)))"

definition json_branch ::
  "env \<Rightarrow> string option \<Rightarrow> request \<Rightarrow> ParsedBody \<Rightarrow> (error + ParsedBody) \<times> request" where
  "json_branch env contentType r ret =
     (case contentType of
        None \<Rightarrow> (Inr ret, r)
      | Some ct \<Rightarrow>
          (if ct \<noteq> [] \<and> includes_str ct ''application/json'' then
             (case parseBodyAsJson env r of
                (Inl e, r') \<Rightarrow> (Inl (Error ''Error reading request body as application/json.'' e), r')
              | (Inr d, r') \<Rightarrow>
                  (Inr (ret\<lparr>data := d, content_type := JStr ''application/json''\<rparr>), r'))
           else (Inr ret, r)))"

definition urlencoded_branch ::
  "env \<Rightarrow> string option \<Rightarrow> request \<Rightarrow> ParsedBody \<Rightarrow> (error + ParsedBody) \<times> request" where
  "urlencoded_branch env contentType r ret =
     (case contentType of
        None \<Rightarrow> (Inr ret, r)
      | Some ct \<Rightarrow>
          (if ct \<noteq> [] \<and> includes_str ct ''application/x-www-form-urlencoded'' then
             (case parseBodyAsFormUrlEncoded env r of
                (Inl e, r') \<Rightarrow>
                  (Inl (Error ''Error reading request body as application/x-www-form-urlencoded.'' e),
                   r')
              | (Inr d, r') \<Rightarrow>
                  (Inr (ret\<lparr>data := JObj d,
                            content_type := JStr ''application/x-www-form-urlencoded''\<rparr>), r'))
           else (Inr ret, r)))"

text \<open>The four statements in the order of the source; the first error ends the method.\<close>

definition decode ::
  "env \<Rightarrow> string option \<Rightarrow> int \<Rightarrow> request \<Rightarrow> ParsedBody \<Rightarrow> (error + ParsedBody) \<times> request" where
  "decode env contentType maxMemory r ret =
     (case no_content_type_branch env contentType r ret of
        (Inl e, r1) \<Rightarrow> (Inl e, r1)
      | (Inr ret1, r1) \<Rightarrow>
          (case multipart_branch env contentType maxMemory r1 ret1 of
             (Inl e, r2) \<Rightarrow> (Inl e, r2)
           | (Inr ret2, r2) \<Rightarrow>
               (case json_branch env contentType r2 ret2 of
                  (Inl e, r3) \<Rightarrow> (Inl e, r3)
                | (Inr ret3, r3) \<Rightarrow> urlencoded_branch env contentType r3 ret3)))"

text \<open>Lines 299-303: the memory limit in bytes that the normalisation stores.\<close>

definition normalized_memory :: "memory_allocation_obj \<Rightarrow> int" where
  "normalized_memory ma =
     (case multipart_form_data ma of
        None \<Rightarrow> 1024 * 1024 * 128
      | Some n \<Rightarrow> (if n = 0 then 1024 * 1024 * 128 else n * (1024 * 1024)))"

text \<open>
  The result of \<^verbatim>\<open>parseBody\<close> is what it returns or throws, the request afterwards (its
  stream may have been read) and the caller's options object afterwards. The options
  argument is \<open>None\<close> when the caller passes none: the parameter's default \<^verbatim>\<open>{}\<close> applies
  then. The test of line 293 is on the promise that \<^verbatim>\<open>hasBody\<close> returns: the call is not
  awaited.
\<close>

definition parseBody ::
  "env \<Rightarrow> request \<Rightarrow> options option \<Rightarrow> (error + ParsedBody) \<times> request \<times> options option" where
  "parseBody env r arg =
     (let opts = (case arg of
                    None \<Rightarrow> \<lparr>options.headers = None, default_response_content_type = None,
                              memory_allocation = None\<rparr>
                  | Some given \<Rightarrow> given);
          ret = \<lparr>content_type = JUndefined, data = JUndefined\<rparr>
      in if \<not> ToBoolean (hasBody r) then (Inr ret, r, arg)
         else (case memory_allocation opts of
                 None \<Rightarrow> (Inl TypeError, r, arg)
               | Some ma \<Rightarrow>
                   (let maxMemory = normalized_memory ma;
                        opts' = opts\<lparr>memory_allocation :=
                                  Some (ma\<lparr>multipart_form_data := Some maxMemory\<rparr>)\<rparr>;
                        arg' = map_option (\<lambda>given. opts') arg;
                        contentType = headers_get (request.headers r) ''Content-Type''
                    in case decode env contentType maxMemory r ret of
                         (res, r') \<Rightarrow> (res, r', arg'))))"

text \<open>
  \<^verbatim>\<open>hydrate\<close> (lines 244-281). The request is changed in place and returned; the parsed
  body \<^verbatim>\<open>pb\<close> is kept by the accessors attached to the request and stored nowhere else.
  The result is the parsed body the accessors hold (or the error thrown), the request
  afterwards and the options object afterwards.
\<close>

definition hydrate ::
  "env \<Rightarrow> request \<Rightarrow> options option \<Rightarrow> (error + ParsedBody) \<times> request \<times> options option" where
  "hydrate env r arg =
     (case arg of
        None \<Rightarrow> (Inl TypeError, r, arg)
      | Some opts \<Rightarrow>
          (let r1 = (case options.headers opts of None \<Rightarrow> r | Some hs \<Rightarrow> setHeaders r hs);
               r2 = r1\<lparr>url_path := getUrlPath r1\<rparr>;
               r3 = r2\<lparr>url_query_params := getUrlQueryParams env r2\<rparr>
           in case getResponseContentType env r3 (default_response_content_type opts) of
                Inl e \<Rightarrow> (Inl e, r3, arg)
              | Inr ct \<Rightarrow> parseBody env (r3\<lparr>response_content_type := ct\<rparr>) arg))"

text \<open>The accessor \<^verbatim>\<open>request.getBodyParam\<close> that \<^verbatim>\<open>hydrate\<close> attaches (lines 267-269),
  with the parsed body it holds.\<close>

definition getBodyParam :: "env \<Rightarrow> ParsedBody \<Rightarrow> string \<Rightarrow> error + jsval" where
  "getBodyParam env pb input = getRequestBodyParam env pb input"

section \<open>A runtime for the examples\<close>

text \<open>
  The theorems below hold for every \<open>env\<close>. Their instances at concrete requests are
  evaluated in the runtime of this section.
\<close>

fun percent_decode :: "string \<Rightarrow> string option" where
  "percent_decode [] = Some []"
| "percent_decode [c] = (if c = CHR ''%'' then None else Some [c])"
| "percent_decode [c, d] = (if c = CHR ''%'' \<or> d = CHR ''%'' then None else Some [c, d])"
| "percent_decode (c # h # l # cs) =
     (if c = CHR ''%'' then
        (case (digit_value 16 h, digit_value 16 l) of
           (Some a, Some b) \<Rightarrow> map_option ((#) (char_of (a * 16 + b))) (percent_decode cs)
         | _ \<Rightarrow> None)
      else map_option ((#) c) (percent_decode (h # l # cs)))"

definition decode_pair :: "string \<Rightarrow> (string \<times> jsval) option" where
  "decode_pair p =
     (case (percent_decode (takeWhile (\<lambda>c. c \<noteq> CHR ''='') p),
            percent_decode (drop 1 (dropWhile (\<lambda>c. c \<noteq> CHR ''='') p))) of
        (Some k, Some v) \<Rightarrow> Some (k, JStr v)
      | _ \<Rightarrow> None)"

text \<open>
  Modelled from the spec: \<^verbatim>\<open>StringService.parseQueryParamsString\<close>, whose file
  \<^verbatim>\<open>src/services/string_service.ts\<close> is not among the sources. The spec (4.1): key=value
  pairs joined by \<^verbatim>\<open>&\<close> are decoded into a mapping, the last occurrence of a key wins,
  keys and values are URL-decoded. The pairs are kept last first, so that a lookup finds
  the last occurrence. No string (\<^verbatim>\<open>null\<close>) gives the empty mapping.
\<close>

definition StringService_parseQueryParamsString :: "jsval \<Rightarrow> error + jsobj" where
  "StringService_parseQueryParamsString v =
     (case v of
        JStr s \<Rightarrow>
          (let pairs = map decode_pair (filter (\<lambda>p. p \<noteq> []) (split (CHR ''&'') s)) in
           if None \<in> set pairs then Inl (Failure ''URIError'')
           else Inr (rev (concat (map (\<lambda>p. case p of None \<Rightarrow> [] | Some kv \<Rightarrow> [kv]) pairs))))
      | _ \<Rightarrow> Inr [])"

text \<open>
  \<^verbatim>\<open>JSON.parse\<close> on the JSON texts made of \<^verbatim>\<open>null\<close>, \<^verbatim>\<open>true\<close>, \<^verbatim>\<open>false\<close>, integers,
  strings without escapes, arrays and objects. The first argument bounds the number of
  nested calls; \<open>parse_json\<close> gives more than a text of its length can use.
\<close>

definition json_ws :: "char \<Rightarrow> bool" where
  "json_ws c = (c \<in> set [CHR 0x20, CHR 0x09, CHR 0x0A, CHR 0x0D])"

fun json_string :: "string \<Rightarrow> (string \<times> string) option" where
  "json_string [] = None"
| "json_string (c # cs) =
     (if c = CHR 0x22 then Some ([], cs)
      else if c = CHR 0x5C \<or> (of_char c :: nat) < 32 then None
      else (case json_string cs of None \<Rightarrow> None | Some (s, rest) \<Rightarrow> Some (c # s, rest)))"

definition json_number :: "string \<Rightarrow> (jsval \<times> string) option" where
  "json_number s =
     (let neg = starts_with ''-'' s;
          t = (if neg then tl s else s);
          ds = takeWhile (\<lambda>c. digit_value 10 c \<noteq> None) t;
          rest = dropWhile (\<lambda>c. digit_value 10 c \<noteq> None) t
      in if ds = [] \<or> (starts_with ''0'' ds \<and> length ds \<noteq> 1) then None
         else if starts_with ''.'' rest \<or> starts_with ''e'' rest \<or> starts_with ''E'' rest then None
         else Some (JNum ((if neg then - 1 else 1) * int (digits_value 10 ds)), rest))"

fun json_value :: "nat \<Rightarrow> string \<Rightarrow> (jsval \<times> string) option"
  and json_elements :: "nat \<Rightarrow> string \<Rightarrow> (jsval list \<times> string) option"
  and json_members :: "nat \<Rightarrow> string \<Rightarrow> (jsobj \<times> string) option" where
  "json_value 0 s = None"
| "json_value (Suc n) s =
     (let t = dropWhile json_ws s in
      if starts_with ''null'' t then Some (JNull, drop 4 t)
      else if starts_with ''true'' t then Some (JBool True, drop 4 t)
      else if starts_with ''false'' t then Some (JBool False, drop 5 t)
      else if starts_with [CHR 0x22] t then
        (case json_string (tl t) of None \<Rightarrow> None | Some (str, rest) \<Rightarrow> Some (JStr str, rest))
      else if starts_with ''['' t then
        (let u = dropWhile json_ws (tl t) in
         if starts_with '']'' u then Some (JArr [], tl u)
         else (case json_elements n u of None \<Rightarrow> None | Some (vs, rest) \<Rightarrow> Some (JArr vs, rest)))
      else if starts_with ''{'' t then
        (let u = dropWhile json_ws (tl t) in
         if starts_with ''}'' u then Some (JObj [], tl u)
         else (case json_members n u of None \<Rightarrow> None | Some (ms, rest) \<Rightarrow> Some (JObj ms, rest)))
      else json_number t)"
| "json_elements 0 s = None"
| "json_elements (Suc n) s =
     (case json_value n s of
        None \<Rightarrow> None
      | Some (v, rest) \<Rightarrow>
          (let t = dropWhile json_ws rest in
           if starts_with '','' t then
             (case json_elements n (tl t) of None \<Rightarrow> None | Some (vs, rest') \<Rightarrow> Some (v # vs, rest'))
           else if starts_with '']'' t then Some ([v], tl t)
           else None))"
| "json_members 0 s = None"
| "json_members (Suc n) s =
     (let t = dropWhile json_ws s in
      if \<not> starts_with [CHR 0x22] t then None
      else (case json_string (tl t) of
              None \<Rightarrow> None
            | Some (k, rest) \<Rightarrow>
                (let u = dropWhile json_ws rest in
                 if \<not> starts_with '':'' u then None
                 else (case json_value n (tl u) of
                         None \<Rightarrow> None
                       | Some (v, rest') \<Rightarrow>
                           (let w = dropWhile json_ws rest' in
                            if starts_with '','' w then
                              (case json_members n (tl w) of
                                 None \<Rightarrow> None
                               | Some (ms, rest'') \<Rightarrow> Some (ms @ [(k, v)], rest''))
                            else if starts_with ''}'' w then Some ([(k, v)], tl w)
                            else None)))))"

definition parse_json :: "string \<Rightarrow> error + jsval" where
  "parse_json s =
     (case json_value (2 * length s + 2) s of
        None \<Rightarrow> Inl SyntaxError
      | Some (v, rest) \<Rightarrow> (if dropWhile json_ws rest = [] then Inr v else Inl SyntaxError))"

text \<open>The runtime of the examples reads no multipart form: it refuses every one and
  leaves the stream as it is.\<close>

definition refuse_form :: "string \<Rightarrow> string \<Rightarrow> int \<Rightarrow> (error + jsobj) \<times> string" where
  "refuse_form unread boundary maxMemory = (Inl (Failure ''multipart''), unread)"

text \<open>The members of \<^verbatim>\<open>Object.prototype\<close>, which every value but \<^verbatim>\<open>undefined\<close> and
  \<^verbatim>\<open>null\<close> inherits.\<close>

definition Object_prototype :: "jsval \<Rightarrow> string \<Rightarrow> jsval option" where
  "Object_prototype v k =
     (if k \<in> set [''constructor'', ''__defineGetter__'', ''__defineSetter__'', ''hasOwnProperty'',
                   ''__lookupGetter__'', ''__lookupSetter__'', ''isPrototypeOf'',
                   ''propertyIsEnumerable'', ''toString'', ''valueOf'', ''__proto__'',
                   ''toLocaleString'']
      then Some (JBuiltin k) else None)"

definition runtime :: env where
  "runtime =
     \<lparr>parseQueryParamsString = StringService_parseQueryParamsString,
      JSON_parse = parse_json,
      readForm = refuse_form,
      inherited = Object_prototype\<rparr>"

text \<open>A request as the server hands it to the service: its URL, its headers and the
  bytes of its body; nothing is attached to it yet.\<close>

definition incoming :: "string \<Rightarrow> (string \<times> string) list \<Rightarrow> string \<Rightarrow> request" where
  "incoming u hs b =
     \<lparr>url = u, request.headers = foldl (\<lambda>h (k, v). headers_set h k v) Map.empty hs, body = b,
      path_params = [], parsed_body = JUndefined, url_path = JUndefined,
      url_query_params = [], response_content_type = JUndefined\<rparr>"

text \<open>What follows the first occurrence of a character in a string.\<close>

definition substring_after :: "char \<Rightarrow> string \<Rightarrow> string" where
  "substring_after sep s = drop 1 (dropWhile (\<lambda>c. c \<noteq> sep) s)"

text \<open>The options \<^verbatim>\<open>{}\<close>, and the options \<^verbatim>\<open>{memory_allocation: {multipart_form_data: m}}\<close>
  (\<^verbatim>\<open>{memory_allocation: {}}\<close> for no \<open>m\<close>).\<close>

definition no_options :: options where
  "no_options =
     \<lparr>options.headers = None, default_response_content_type = None, memory_allocation = None\<rparr>"

definition options_with_memory :: "int option \<Rightarrow> options" where
  "options_with_memory m = no_options\<lparr>memory_allocation := Some \<lparr>multipart_form_data = m\<rparr>\<rparr>"

section \<open>The statements of the spec\<close>

text \<open>
  The three places where a request can name the content type of the response, as
  \<^verbatim>\<open>getResponseContentType\<close> reads them: the header \<^verbatim>\<open>Response-Content-Type\<close>, the query
  parameter \<^verbatim>\<open>response_content_type\<close>, and the property \<^verbatim>\<open>response_content_type\<close> of
  \<^verbatim>\<open>request.parsed_body\<close> (nothing when there is no \<^verbatim>\<open>parsed_body\<close>).
\<close>

definition header_source :: "request \<Rightarrow> jsval" where
  "header_source r = js_of (headers_get (request.headers r) ''Response-Content-Type'')"

definition query_source :: "env \<Rightarrow> request \<Rightarrow> jsval" where
  "query_source env r = property_value env (JObj (url_query_params r)) ''response_content_type''"

definition body_source :: "env \<Rightarrow> request \<Rightarrow> jsval" where
  "body_source env r =
     (if ToBoolean (parsed_body r)
      then property_value env (parsed_body r) ''response_content_type''
      else JUndefined)"

text \<open>
  The spec's \<^verbatim>\<open>resolveResponseContentType\<close> (4.2), in the spec's words: the precedence,
  highest first, is the body, the query parameter, the header, and the default type,
  which falls back to \<^verbatim>\<open>application/json\<close> when it is empty or not given.
\<close>

definition resolveResponseContentType :: "env \<Rightarrow> request \<Rightarrow> string option \<Rightarrow> jsval" where
  "resolveResponseContentType env r defaultType =
     (if ToBoolean (body_source env r) then body_source env r
      else if ToBoolean (query_source env r) then query_source env r
      else if ToBoolean (header_source r) then header_source r
      else (case defaultType of
              None \<Rightarrow> JStr ''application/json''
            | Some d \<Rightarrow> (if d = [] then JStr ''application/json'' else JStr d)))"


text \<open>
  The claim about the three branches of \<^verbatim>\<open>parseBody\<close>, in its words: the branches for
  \<^verbatim>\<open>multipart/form-data\<close>, \<^verbatim>\<open>application/json\<close> and \<^verbatim>\<open>application/x-www-form-urlencoded\<close>
  are independent and run in that order. \<open>matching\<close> lists the branches whose text a
  header value contains, in that order. \<open>in_order\<close> runs a list of branches one after the
  other: each decodes the stream as the branches before it have left it; the first error
  ends the run, wrapped in the message of its branch; each branch that succeeds
  overwrites both fields of the result, so that the last one's stay.
\<close>

datatype branch = Multipart | Json | Urlencoded

fun branch_name :: "branch \<Rightarrow> string" where
  "branch_name Multipart = ''multipart/form-data''"
| "branch_name Json = ''application/json''"
| "branch_name Urlencoded = ''application/x-www-form-urlencoded''"

fun branch_message :: "branch \<Rightarrow> string" where
  "branch_message Multipart = ''Error reading request body as multipart/form-data.''"
| "branch_message Json = ''Error reading request body as application/json.''"
| "branch_message Urlencoded = ''Error reading request body as application/x-www-form-urlencoded.''"

fun branch_decoder ::
  "env \<Rightarrow> string \<Rightarrow> int \<Rightarrow> branch \<Rightarrow> request \<Rightarrow> (error + jsval) \<times> request" where
  "branch_decoder env ct maxMemory Multipart r =
     (case match_boundary ct of
        None \<Rightarrow> (Inl TypeError, r)
      | Some boundary \<Rightarrow>
          (case parseBodyAsMultipartFormData env r boundary maxMemory of
             (Inl e, r') \<Rightarrow> (Inl e, r')
           | (Inr d, r') \<Rightarrow> (Inr (JObj d), r')))"
| "branch_decoder env ct maxMemory Json r = parseBodyAsJson env r"
| "branch_decoder env ct maxMemory Urlencoded r =
     (case parseBodyAsFormUrlEncoded env r of
        (Inl e, r') \<Rightarrow> (Inl e, r')
      | (Inr d, r') \<Rightarrow> (Inr (JObj d), r'))"

fun in_order ::
  "env \<Rightarrow> string \<Rightarrow> int \<Rightarrow> branch list \<Rightarrow> request \<Rightarrow> ParsedBody
     \<Rightarrow> (error + ParsedBody) \<times> request" where
  "in_order env ct maxMemory [] r ret = (Inr ret, r)"
| "in_order env ct maxMemory (k # ks) r ret =
     (case branch_decoder env ct maxMemory k r of
        (Inl e, r') \<Rightarrow> (Inl (Error (branch_message k) e), r')
      | (Inr d, r') \<Rightarrow>
          in_order env ct maxMemory ks r' \<lparr>content_type = JStr (branch_name k), data = d\<rparr>)"

definition matching :: "string \<Rightarrow> branch list" where
  "matching ct = filter (\<lambda>k. includes_str ct (branch_name k)) [Multipart, Json, Urlencoded]"

text \<open>Two requests that differ at most in the unread bytes of their body streams.\<close>

definition only_body :: "request \<Rightarrow> request \<Rightarrow> bool" where
  "only_body r r' = (r' = r\<lparr>body := body r'\<rparr>)"

text \<open>The request as lines 245-255 of \<^verbatim>\<open>hydrate\<close> leave it: the headers of the options
  merged, and the three properties attached.\<close>

definition attach_properties :: "env \<Rightarrow> request \<Rightarrow> options \<Rightarrow> request" where
  "attach_properties env r opts =
     (let r1 = (case options.headers opts of None \<Rightarrow> r | Some hs \<Rightarrow> setHeaders r hs);
          r2 = r1\<lparr>url_path := getUrlPath r1\<rparr>;
          r3 = r2\<lparr>url_query_params := getUrlQueryParams env r2\<rparr>
      in r3\<lparr>response_content_type :=
              resolveResponseContentType env r3 (default_response_content_type opts)\<rparr>)"

section \<open>Strings: lemmas\<close>

lemma split_not_Nil: "split sep s \<noteq> []"
  by (induction s) (auto split: list.splits)

lemma split_no_sep: "sep \<notin> set s \<Longrightarrow> split sep s = [s]"
  by (induction s) auto

lemma takeWhile_no_sep: "sep \<notin> set s \<Longrightarrow> takeWhile (\<lambda>c. c \<noteq> sep) s = s"
  by (induction s) auto

lemma split_at_first:
  "sep \<in> set s \<Longrightarrow>
   split sep s = takeWhile (\<lambda>c. c \<noteq> sep) s # split sep (substring_after sep s)"
proof (induction s)
  case Nil
  then show ?case by simp
next
  case (Cons c cs)
  show ?case
  proof (cases "c = sep")
    case True
    then show ?thesis by (simp add: substring_after_def)
  next
    case False
    with Cons.prems have "sep \<in> set cs" by simp
    with Cons.IH False show ?thesis by (simp add: substring_after_def)
  qed
qed

lemma hd_split: "hd (split sep s) = takeWhile (\<lambda>c. c \<noteq> sep) s"
proof (cases "sep \<in> set s")
  case True
  then show ?thesis by (simp add: split_at_first)
next
  case False
  show ?thesis by (simp only: split_no_sep[OF False] takeWhile_no_sep[OF False] list.sel)
qed

lemma second_of_split:
  assumes "sep \<in> set s"
  shows "at_index (split sep s) (Suc 0) = JStr (takeWhile (\<lambda>c. c \<noteq> sep) (substring_after sep s))"
proof -
  let ?rest = "substring_after sep s"
  obtain p ps where ps: "split sep ?rest = p # ps"
    using split_not_Nil[of sep ?rest] by (cases "split sep ?rest") auto
  have "p = takeWhile (\<lambda>c. c \<noteq> sep) ?rest"
    using hd_split[of sep ?rest] ps by simp
  with split_at_first[OF assms] ps show ?thesis
    by (simp add: at_index_def)
qed

lemma substring_after_decomposes:
  "sep \<in> set s \<Longrightarrow> s = takeWhile (\<lambda>c. c \<noteq> sep) s @ sep # substring_after sep s"
  by (induction s) (auto simp: substring_after_def)

section \<open>The URL query string\<close>

text \<open>
  What \<^verbatim>\<open>getUrlQueryString\<close> computes: \<^verbatim>\<open>null\<close> for a URL without a question mark, and
  otherwise the second piece of \<^verbatim>\<open>url.split("?")\<close>, which is what stands between the first
  question mark and the next one (or the end of the URL when there is no other). It is
  everything after the first question mark exactly when no second one follows.
\<close>

lemma getUrlQueryString_segment:
  "getUrlQueryString r =
     (if CHR ''?'' \<in> set (url r)
      then JStr (takeWhile (\<lambda>c. c \<noteq> CHR ''?'') (substring_after (CHR ''?'') (url r)))
      else JNull)
   \<and> (getUrlQueryString r = JStr (substring_after (CHR ''?'') (url r)) \<longleftrightarrow>
        CHR ''?'' \<in> set (url r) \<and> CHR ''?'' \<notin> set (substring_after (CHR ''?'') (url r)))"
proof -
  let ?rest = "substring_after (CHR ''?'') (url r)"
  have first: "getUrlQueryString r =
     (if CHR ''?'' \<in> set (url r) then JStr (takeWhile (\<lambda>c. c \<noteq> CHR ''?'') ?rest) else JNull)"
    by (simp add: getUrlQueryString_def second_of_split)
  have "takeWhile (\<lambda>c. c \<noteq> CHR ''?'') ?rest = ?rest \<longleftrightarrow> CHR ''?'' \<notin> set ?rest"
    by (auto simp: takeWhile_eq_all_conv)
  with first show ?thesis by auto
qed

text \<open>
  C7. The claim: for a URL with a question mark \<^verbatim>\<open>getUrlQueryString\<close> returns all that
  follows the first one. At the URL \<^verbatim>\<open>/login?next=/home?tab=1\<close> the query string is
  \<^verbatim>\<open>next=/home?tab=1\<close>, and the method returns \<^verbatim>\<open>next=/home\<close>: it stops before the second
  question mark.
\<close>

theorem getUrlQueryString_two_question_marks:
  "getUrlQueryString (incoming ''/login?next=/home?tab=1'' [] []) = JStr ''next=/home''
   \<and> substring_after (CHR ''?'') (url (incoming ''/login?next=/home?tab=1'' [] []))
       = ''next=/home?tab=1''"
  by (simp add: getUrlQueryString_def incoming_def at_index_def substring_after_def)

section \<open>The presence of a body\<close>

lemma parseInt_null: "parseInt None = None"
  by (simp add: parseInt_def white_space_def digit_value_def)

lemma lower_content_length:
  "map lower_char ''content-length'' = ''content-length''"
  "map lower_char ''Content-Length'' = ''content-length''"
  by (simp_all add: lower_char_def)

lemma hasBody_value_any_case:
  assumes "map lower_char name = ''content-length''"
  shows "hasBody_value r = greater_zero (parseInt (headers_get (request.headers r) name))"
proof -
  have "headers_get (request.headers r) ''content-length'' = headers_get (request.headers r) name"
    "headers_get (request.headers r) ''Content-Length'' = headers_get (request.headers r) name"
    by (simp_all only: headers_get_def assms lower_content_length)
  then show ?thesis
    unfolding hasBody_value_def by (simp add: Let_def)
qed

text \<open>
  C6. Whatever the case of the letters in which the name \<^verbatim>\<open>Content-Length\<close> is written,
  by the sender of the header or in the lookup, \<^verbatim>\<open>hasBody\<close> returns (a promise of)
  \<^verbatim>\<open>true\<close> exactly when the request has that header and \<^verbatim>\<open>parseInt\<close> reads an integer
  greater than zero from it, and (a promise of) \<^verbatim>\<open>false\<close> otherwise, so also when the
  header is missing or has no number to read. It returns in every case: the model has no
  error for it to raise.
\<close>

theorem hasBody_iff_content_length:
  "map lower_char name = ''content-length'' \<Longrightarrow>
     (hasBody r = JPromise (JBool True) \<longleftrightarrow>
        (\<exists>v n. headers_get (request.headers r) name = Some v \<and> parseInt (Some v) = Some n \<and> 0 < n))
   \<and> (hasBody r = JPromise (JBool False) \<longleftrightarrow>
        \<not> (\<exists>v n. headers_get (request.headers r) name = Some v \<and> parseInt (Some v) = Some n
               \<and> 0 < n))
   \<and> (headers_get (request.headers r) name = None \<longrightarrow> hasBody r = JPromise (JBool False))
   \<and> (\<forall>v. headers_get (request.headers r) name = Some v \<and> parseInt (Some v) = None
          \<longrightarrow> hasBody r = JPromise (JBool False))
   \<and> (\<forall>v. hasBody (r\<lparr>request.headers := headers_set (request.headers r) name v\<rparr>)
          = JPromise (JBool (greater_zero (parseInt (Some v)))))"
proof -
  assume name: "map lower_char name = ''content-length''"
  have sent: "hasBody (r\<lparr>request.headers := headers_set (request.headers r) name v\<rparr>)
      = JPromise (JBool (greater_zero (parseInt (Some v))))" for v
  proof -
    have "headers_get (headers_set (request.headers r) name v) name = Some v"
      by (simp only: headers_get_def headers_set_def fun_upd_same)
    then show ?thesis
      unfolding hasBody_def hasBody_value_any_case[OF name] by simp
  qed
  have "(hasBody r = JPromise (JBool True) \<longleftrightarrow>
        (\<exists>v n. headers_get (request.headers r) name = Some v \<and> parseInt (Some v) = Some n \<and> 0 < n))
   \<and> (hasBody r = JPromise (JBool False) \<longleftrightarrow>
        \<not> (\<exists>v n. headers_get (request.headers r) name = Some v \<and> parseInt (Some v) = Some n
               \<and> 0 < n))
   \<and> (headers_get (request.headers r) name = None \<longrightarrow> hasBody r = JPromise (JBool False))
   \<and> (\<forall>v. headers_get (request.headers r) name = Some v \<and> parseInt (Some v) = None
          \<longrightarrow> hasBody r = JPromise (JBool False))"
    unfolding hasBody_def hasBody_value_any_case[OF name]
    by (cases "headers_get (request.headers r) name";
        cases "parseInt (headers_get (request.headers r) name)")
       (auto simp: greater_zero_def parseInt_null)
  with sent show ?thesis by simp
qed

theorem hasBody_iff_content_length_witness:
  "map lower_char ''CONTENT-LENGTH'' = ''content-length''
   \<and> hasBody (incoming ''/'' [(''Content-Length'', ''42'')] ''x'') = JPromise (JBool True)
   \<and> hasBody (incoming ''/'' [(''Content-Length'', ''0'')] []) = JPromise (JBool False)
   \<and> hasBody (incoming ''/'' [(''Content-Length'', ''many'')] []) = JPromise (JBool False)
   \<and> hasBody (incoming ''/'' [] []) = JPromise (JBool False)"
proof -
  have name: "map lower_char ''CONTENT-LENGTH'' = ''content-length''"
    by (simp add: lower_char_def)
  have ev: "parseInt (Some ''42'') = Some 42" "parseInt (Some ''0'') = Some 0"
    "parseInt (Some ''many'') = None"
    by (simp_all add: parseInt_def white_space_def digit_value_def digits_value_def)
  have get: "headers_get (request.headers (incoming ''/'' [(''Content-Length'', v)] b)) ''CONTENT-LENGTH''
      = Some v"
    "headers_get (request.headers (incoming ''/'' [] b)) ''CONTENT-LENGTH'' = None" for v b
    by (simp_all add: incoming_def headers_get_def headers_set_def lower_char_def)
  show ?thesis
    using name
      hasBody_iff_content_length[OF name, of "incoming ''/'' [(''Content-Length'', ''42'')] ''x''"]
      hasBody_iff_content_length[OF name, of "incoming ''/'' [(''Content-Length'', ''0'')] []"]
      hasBody_iff_content_length[OF name, of "incoming ''/'' [(''Content-Length'', ''many'')] []"]
      hasBody_iff_content_length[OF name, of "incoming ''/'' [] []"]
    by (simp add: get ev)
qed

section \<open>Evaluation at concrete requests\<close>

lemmas request_eval = incoming_def headers_set_def headers_get_def lower_char_def js_of_def

lemmas lookup_eval = property_value_def runtime_def Object_prototype_def

lemmas json_eval = parse_json_def json_ws_def json_number_def digit_value_def digits_value_def
  eval_nat_numeral

lemmas decode_eval = decode_def no_content_type_branch_def multipart_branch_def json_branch_def
  urlencoded_branch_def parseBodyAsJson_def parseBodyAsFormUrlEncoded_def
  parseBodyAsMultipartFormData_def normalized_memory_def

lemmas hydrate_eval = hydrate_def getUrlPath_def getUrlQueryParams_def getUrlQueryString_def
  getResponseContentType_def Get_def setHeaders_def at_index_def
  StringService_parseQueryParamsString_def decode_pair_def

lemmas options_eval = options_with_memory_def no_options_def

section \<open>The content type of the response\<close>

lemma ToBoolean_defined: "ToBoolean v \<Longrightarrow> v \<noteq> JUndefined \<and> v \<noteq> JNull"
  by (cases v) auto

lemma getResponseContentType_resolve:
  "getResponseContentType env r defaultType = Inr (resolveResponseContentType env r defaultType)"
proof -
  have q: "Get env (JObj (url_query_params r)) ''response_content_type'' = Inr (query_source env r)"
    by (simp add: Get_def query_source_def)
  have b: "(if ToBoolean (parsed_body r)
            then Get env (parsed_body r) ''response_content_type''
            else Inr (parsed_body r))
           = Inr (if ToBoolean (parsed_body r) then body_source env r else parsed_body r)"
    using ToBoolean_defined[of "parsed_body r"] by (simp add: Get_def body_source_def)
  have nb: "\<not> ToBoolean (parsed_body r) \<Longrightarrow> \<not> ToBoolean (body_source env r)"
    by (simp add: body_source_def)
  show ?thesis
    unfolding getResponseContentType_def q b
    by (cases defaultType)
       (auto simp: resolveResponseContentType_def header_source_def Let_def nb)
qed

text \<open>
  C2. For every request and every default argument (also none), \<^verbatim>\<open>getResponseContentType\<close>
  returns, without raising, what the precedence of the spec gives: the body's
  \<^verbatim>\<open>response_content_type\<close> when it is not empty, else the query parameter when it is
  not empty, else the header when it is not empty, else the default given, and
  \<^verbatim>\<open>application/json\<close> when the default is empty or not given. The method assigns in
  the opposite order (header, query parameter, body), each later assignment overwriting
  the earlier ones.
\<close>

theorem getResponseContentType_precedence:
  "getResponseContentType env r defaultType = Inr (resolveResponseContentType env r defaultType)
   \<and> (ToBoolean (body_source env r) \<longrightarrow>
        getResponseContentType env r defaultType = Inr (body_source env r))
   \<and> (\<not> ToBoolean (body_source env r) \<and> ToBoolean (query_source env r) \<longrightarrow>
        getResponseContentType env r defaultType = Inr (query_source env r))
   \<and> (\<not> ToBoolean (body_source env r) \<and> \<not> ToBoolean (query_source env r)
        \<and> ToBoolean (header_source r) \<longrightarrow>
        getResponseContentType env r defaultType = Inr (header_source r))
   \<and> (\<not> ToBoolean (body_source env r) \<and> \<not> ToBoolean (query_source env r)
        \<and> \<not> ToBoolean (header_source r) \<longrightarrow>
        getResponseContentType env r defaultType =
          Inr (JStr (if defaultType = None \<or> defaultType = Some [] then ''application/json''
                     else the defaultType)))"
proof -
  have "resolveResponseContentType env r defaultType =
      (if ToBoolean (body_source env r) then body_source env r
       else if ToBoolean (query_source env r) then query_source env r
       else if ToBoolean (header_source r) then header_source r
       else JStr (if defaultType = None \<or> defaultType = Some [] then ''application/json''
                  else the defaultType))"
    by (cases defaultType) (simp_all add: resolveResponseContentType_def)
  then show ?thesis
    by (simp add: getResponseContentType_resolve)
qed

theorem getResponseContentType_precedence_witness:
  "getResponseContentType runtime
     ((incoming ''/x?response_content_type=text/html'' [(''Response-Content-Type'', ''text/xml'')] [])
        \<lparr>url_query_params := [(''response_content_type'', JStr ''text/html'')],
         parsed_body := JObj [(''response_content_type'', JStr ''text/plain'')]\<rparr>)
     (Some ''application/json'') = Inr (JStr ''text/plain'')
   \<and> getResponseContentType runtime
     ((incoming ''/x?response_content_type=text/html'' [(''Response-Content-Type'', ''text/xml'')] [])
        \<lparr>url_query_params := [(''response_content_type'', JStr ''text/html'')]\<rparr>)
     (Some ''application/json'') = Inr (JStr ''text/html'')
   \<and> getResponseContentType runtime
     (incoming ''/x'' [(''Response-Content-Type'', ''text/xml'')] [])
     (Some ''application/json'') = Inr (JStr ''text/xml'')
   \<and> getResponseContentType runtime (incoming ''/x'' [] []) (Some ''text/csv'') = Inr (JStr ''text/csv'')
   \<and> getResponseContentType runtime (incoming ''/x'' [] []) (Some []) = Inr (JStr ''application/json'')
   \<and> getResponseContentType runtime (incoming ''/x'' [] []) None = Inr (JStr ''application/json'')"
proof -
  note p = getResponseContentType_precedence[THEN conjunct1]
  show ?thesis
    unfolding p
    by (simp add: resolveResponseContentType_def body_source_def query_source_def
        header_source_def request_eval lookup_eval)
qed

section \<open>The options of \<^verbatim>\<open>parseBody\<close>\<close>

lemma hasBody_truthy: "ToBoolean (hasBody r)"
  by (simp add: hasBody_def)

lemma parseBody_no_memory_allocation:
  "memory_allocation opts = None \<Longrightarrow> parseBody env r (Some opts) = (Inl TypeError, r, Some opts)"
  by (simp add: parseBody_def hasBody_truthy)

lemma parseBody_no_options: "parseBody env r None = (Inl TypeError, r, None)"
  by (simp add: parseBody_def hasBody_truthy)

lemma parseBody_decode:
  "memory_allocation opts = Some ma \<Longrightarrow>
   parseBody env r (Some opts) =
     (fst (decode env (headers_get (request.headers r) ''Content-Type'') (normalized_memory ma) r
             \<lparr>content_type = JUndefined, data = JUndefined\<rparr>),
      snd (decode env (headers_get (request.headers r) ''Content-Type'') (normalized_memory ma) r
             \<lparr>content_type = JUndefined, data = JUndefined\<rparr>),
      Some (opts\<lparr>memory_allocation :=
              Some (ma\<lparr>multipart_form_data := Some (normalized_memory ma)\<rparr>)\<rparr>))"
  by (simp add: parseBody_def hasBody_truthy Let_def split: prod.splits)

text \<open>
  C8. For every request and every options object (with the \<^verbatim>\<open>memory_allocation\<close> object
  that the options of the spec always have), \<^verbatim>\<open>parseBody\<close> leaves the caller's options
  object with \<^verbatim>\<open>memory_allocation.multipart_form_data\<close> set to 134,217,728 when it was
  missing or zero and to its former value times 1,048,576 otherwise, and with every other
  property as it was; this holds whether \<^verbatim>\<open>parseBody\<close> returns or throws afterwards.
\<close>

theorem parseBody_normalizes:
  "memory_allocation opts = Some ma \<Longrightarrow>
   snd (snd (parseBody env r (Some opts))) =
     Some (opts\<lparr>memory_allocation := Some (ma\<lparr>multipart_form_data :=
        Some (case multipart_form_data ma of
                None \<Rightarrow> 134217728
              | Some n \<Rightarrow> (if n = 0 then 134217728 else n * 1048576))\<rparr>)\<rparr>)"
proof -
  assume ma: "memory_allocation opts = Some ma"
  have "normalized_memory ma =
      (case multipart_form_data ma of
         None \<Rightarrow> 134217728
       | Some n \<Rightarrow> (if n = 0 then 134217728 else n * 1048576))"
    by (simp add: normalized_memory_def split: option.splits)
  with parseBody_decode[OF ma, of env r] show ?thesis by simp
qed

theorem parseBody_normalizes_witness:
  "snd (snd (parseBody runtime (incoming ''/'' [(''Content-Length'', ''3'')] ''a=1'')
       (Some (options_with_memory (Some 10))))) = Some (options_with_memory (Some 10485760))
   \<and> snd (snd (parseBody runtime (incoming ''/'' [(''Content-Length'', ''3'')] ''a=1'')
       (Some (options_with_memory None)))) = Some (options_with_memory (Some 134217728))
   \<and> snd (snd (parseBody runtime (incoming ''/'' [(''Content-Length'', ''3'')] ''a=1'')
       (Some (options_with_memory (Some 0))))) = Some (options_with_memory (Some 134217728))"
  using parseBody_normalizes[of "options_with_memory (Some 10)" "\<lparr>multipart_form_data = Some 10\<rparr>"
      runtime "incoming ''/'' [(''Content-Length'', ''3'')] ''a=1''"]
    parseBody_normalizes[of "options_with_memory None" "\<lparr>multipart_form_data = None\<rparr>"
      runtime "incoming ''/'' [(''Content-Length'', ''3'')] ''a=1''"]
    parseBody_normalizes[of "options_with_memory (Some 0)" "\<lparr>multipart_form_data = Some 0\<rparr>"
      runtime "incoming ''/'' [(''Content-Length'', ''3'')] ''a=1''"]
  by (simp add: options_eval)

section \<open>What the decoders leave of the request\<close>

lemma only_body_refl: "only_body r r"
  by (simp add: only_body_def)

lemma only_body_trans: "only_body r r' \<Longrightarrow> only_body r' r'' \<Longrightarrow> only_body r r''"
  unfolding only_body_def
  by (metis (no_types, lifting) request.surjective request.update_convs(3))

lemma only_body_fields:
  "only_body r r' \<Longrightarrow>
     response_content_type r' = response_content_type r \<and> parsed_body r' = parsed_body r
     \<and> url r' = url r \<and> request.headers r' = request.headers r
     \<and> url_query_params r' = url_query_params r \<and> url_path r' = url_path r"
  unfolding only_body_def
  by (metis (no_types, lifting) request.select_convs request.surjective request.update_convs(3))

lemma form_frame: "snd (parseBodyAsFormUrlEncoded env r) = r\<lparr>body := []\<rparr>"
  by (simp add: parseBodyAsFormUrlEncoded_def Let_def split: jsval.splits)

lemma no_content_type_branch_frame: "only_body r (snd (no_content_type_branch env ct r ret))"
proof (cases "parseBodyAsFormUrlEncoded env r")
  case (Pair res r')
  with form_frame[of env r] have "r' = r\<lparr>body := []\<rparr>" by simp
  with Pair show ?thesis
    by (auto simp: no_content_type_branch_def only_body_def split: sum.splits)
qed

lemma urlencoded_branch_frame: "only_body r (snd (urlencoded_branch env ct r ret))"
proof (cases "parseBodyAsFormUrlEncoded env r")
  case (Pair res r')
  with form_frame[of env r] have "r' = r\<lparr>body := []\<rparr>" by simp
  with Pair show ?thesis
    by (auto simp: urlencoded_branch_def only_body_def split: sum.splits option.splits)
qed

lemma json_branch_frame: "only_body r (snd (json_branch env ct r ret))"
  by (auto simp: json_branch_def parseBodyAsJson_def only_body_def split: sum.splits option.splits)

lemma multipart_branch_frame: "only_body r (snd (multipart_branch env ct m r ret))"
  by (auto simp: multipart_branch_def parseBodyAsMultipartFormData_def only_body_def
      split: sum.splits option.splits prod.splits)

lemma decode_frame: "only_body r (snd (decode env ct m r ret))"
proof -
  obtain x1 r1 where s1: "no_content_type_branch env ct r ret = (x1, r1)"
    by (cases "no_content_type_branch env ct r ret")
  have f1: "only_body r r1"
    using no_content_type_branch_frame[of r env ct ret] s1 by simp
  show ?thesis
  proof (cases x1)
    case (Inl e)
    with s1 f1 show ?thesis by (simp add: decode_def)
  next
    case (Inr ret1)
    obtain x2 r2 where s2: "multipart_branch env ct m r1 ret1 = (x2, r2)"
      by (cases "multipart_branch env ct m r1 ret1")
    have f2: "only_body r r2"
      using only_body_trans[OF f1] multipart_branch_frame[of r1 env ct m ret1] s2 by simp
    show ?thesis
    proof (cases x2)
      case (Inl e)
      with s1 s2 Inr f2 show ?thesis by (simp add: decode_def)
    next
      case ret2: (Inr ret2)
      obtain x3 r3 where s3: "json_branch env ct r2 ret2 = (x3, r3)"
        by (cases "json_branch env ct r2 ret2")
      have f3: "only_body r r3"
        using only_body_trans[OF f2] json_branch_frame[of r2 env ct ret2] s3 by simp
      show ?thesis
      proof (cases x3)
        case (Inl e)
        with s1 s2 s3 Inr ret2 f3 show ?thesis by (simp add: decode_def)
      next
        case ret3: (Inr ret3)
        have "only_body r (snd (urlencoded_branch env ct r3 ret3))"
          using only_body_trans[OF f3] urlencoded_branch_frame[of r3 env ct ret3] by simp
        with s1 s2 s3 Inr ret2 ret3 show ?thesis by (simp add: decode_def)
      qed
    qed
  qed
qed

lemma parseBody_frame: "only_body r (fst (snd (parseBody env r arg)))"
proof (cases arg)
  case None
  then show ?thesis by (simp add: parseBody_no_options only_body_refl)
next
  case (Some opts)
  show ?thesis
  proof (cases "memory_allocation opts")
    case None
    with Some show ?thesis by (simp add: parseBody_no_memory_allocation only_body_refl)
  next
    case (Some ma)
    with \<open>arg = Some opts\<close> show ?thesis by (simp add: parseBody_decode decode_frame)
  qed
qed

section \<open>Hydration\<close>

lemma hydrate_parseBody:
  "hydrate env r (Some opts) = parseBody env (attach_properties env r opts) (Some opts)"
  by (simp add: hydrate_def attach_properties_def getResponseContentType_resolve Let_def)

lemma hydrate_no_options: "hydrate env r None = (Inl TypeError, r, None)"
  by (simp add: hydrate_def)

lemma attach_properties_body:
  "attach_properties env (r\<lparr>body := b\<rparr>) opts = (attach_properties env r opts)\<lparr>body := b\<rparr>"
proof -
  have h: "setHeaders (r\<lparr>body := b\<rparr>) hs = (setHeaders r hs)\<lparr>body := b\<rparr>" for hs
    by (simp add: setHeaders_def)
  have p: "getUrlPath (x\<lparr>body := b\<rparr>) = getUrlPath x" for x
    by (simp add: getUrlPath_def Let_def)
  have q: "getUrlQueryParams env (x\<lparr>body := b, url_path := u\<rparr>)
      = getUrlQueryParams env (x\<lparr>url_path := u\<rparr>)" for x u
    by (simp add: getUrlQueryParams_def getUrlQueryString_def)
  have rs: "resolveResponseContentType env (x\<lparr>body := b, url_path := u, url_query_params := qp\<rparr>) d
      = resolveResponseContentType env (x\<lparr>url_path := u, url_query_params := qp\<rparr>) d" for x u qp d
    by (simp add: resolveResponseContentType_def body_source_def query_source_def header_source_def)
  show ?thesis
    by (cases "options.headers opts") (simp_all add: attach_properties_def Let_def h p q rs)
qed

lemma attach_properties_kept:
  "parsed_body (attach_properties env r opts) = parsed_body r"
  "body (attach_properties env r opts) = body r"
  by (cases "options.headers opts"; simp add: attach_properties_def Let_def setHeaders_def)+

lemma attach_properties_resolved:
  "response_content_type (attach_properties env r opts) =
     resolveResponseContentType env (attach_properties env r opts) (default_response_content_type opts)"
  by (simp add: attach_properties_def Let_def resolveResponseContentType_def body_source_def
      query_source_def header_source_def)

lemma only_body_resolve:
  assumes "only_body r r'"
  shows "resolveResponseContentType env r' d = resolveResponseContentType env r d"
  using only_body_fields[OF assms]
  by (simp add: resolveResponseContentType_def body_source_def query_source_def header_source_def)

lemma hydrate_frame:
  "only_body (case arg of None \<Rightarrow> r | Some opts \<Rightarrow> attach_properties env r opts)
     (fst (snd (hydrate env r arg)))"
  by (cases arg) (simp_all add: hydrate_no_options hydrate_parseBody parseBody_frame only_body_refl)

text \<open>
  C10. \<^verbatim>\<open>hydrate\<close> called without options throws a \<^verbatim>\<open>TypeError\<close> and leaves the request
  as it was; so does \<^verbatim>\<open>parseBody\<close> called without options (its default \<^verbatim>\<open>{}\<close> has no
  \<^verbatim>\<open>memory_allocation\<close>) or with options that have no \<^verbatim>\<open>memory_allocation\<close>. In each case
  the stream of the body is as it was: no decoder has run. With such options \<^verbatim>\<open>hydrate\<close>
  throws the same error, out of its call of \<^verbatim>\<open>parseBody\<close>.
\<close>

theorem options_required:
  "hydrate env r None = (Inl TypeError, r, None)
   \<and> parseBody env r None = (Inl TypeError, r, None)
   \<and> (memory_allocation opts = None \<longrightarrow>
         parseBody env r (Some opts) = (Inl TypeError, r, Some opts)
         \<and> fst (hydrate env r (Some opts)) = Inl TypeError
         \<and> body (fst (snd (hydrate env r (Some opts)))) = body r)"
proof -
  have "fst (hydrate env r (Some opts)) = Inl TypeError
      \<and> body (fst (snd (hydrate env r (Some opts)))) = body r"
    if "memory_allocation opts = None"
    using that
    by (simp add: hydrate_parseBody parseBody_no_memory_allocation attach_properties_kept)
  then show ?thesis
    by (simp add: hydrate_no_options parseBody_no_options parseBody_no_memory_allocation)
qed

theorem options_required_witness:
  "hydrate runtime (incoming ''/'' [(''Content-Length'', ''3'')] ''a=1'') None
     = (Inl TypeError, incoming ''/'' [(''Content-Length'', ''3'')] ''a=1'', None)
   \<and> parseBody runtime (incoming ''/'' [(''Content-Length'', ''3'')] ''a=1'') None
     = (Inl TypeError, incoming ''/'' [(''Content-Length'', ''3'')] ''a=1'', None)
   \<and> memory_allocation no_options = None
   \<and> parseBody runtime (incoming ''/'' [(''Content-Length'', ''3'')] ''a=1'') (Some no_options)
     = (Inl TypeError, incoming ''/'' [(''Content-Length'', ''3'')] ''a=1'', Some no_options)
   \<and> fst (hydrate runtime (incoming ''/'' [(''Content-Length'', ''3'')] ''a=1'') (Some no_options))
     = Inl TypeError
   \<and> body (fst (snd (hydrate runtime (incoming ''/'' [(''Content-Length'', ''3'')] ''a=1'')
        (Some no_options)))) = ''a=1''"
proof -
  have none: "memory_allocation no_options = None"
    by (simp add: no_options_def)
  have b: "body (incoming ''/'' [(''Content-Length'', ''3'')] ''a=1'') = ''a=1''"
    by (simp add: incoming_def)
  show ?thesis
    using none b
      options_required[of runtime "incoming ''/'' [(''Content-Length'', ''3'')] ''a=1''" no_options]
    by simp
qed

text \<open>
  C9. \<^verbatim>\<open>hydrate\<close> attaches \<^verbatim>\<open>response_content_type\<close> before it parses the body and never
  assigns \<^verbatim>\<open>request.parsed_body\<close>. So two requests that differ only in the bytes of
  their bodies get the same \<^verbatim>\<open>response_content_type\<close>, whatever the options; the
  property \<^verbatim>\<open>parsed_body\<close> is after \<^verbatim>\<open>hydrate\<close> what it was before; and when the caller
  had not set it, the body is no source of the content type attached: that is the one
  resolved from the query parameter, the header and the default alone.
\<close>

theorem hydrate_body_noninterference:
  "response_content_type (fst (snd (hydrate env (r\<lparr>body := b\<rparr>) arg)))
     = response_content_type (fst (snd (hydrate env (r\<lparr>body := b'\<rparr>) arg)))
   \<and> parsed_body (fst (snd (hydrate env r arg))) = parsed_body r
   \<and> (\<forall>opts. arg = Some opts \<and> parsed_body r = JUndefined \<longrightarrow>
         body_source env (fst (snd (hydrate env r arg))) = JUndefined
         \<and> response_content_type (fst (snd (hydrate env r arg)))
             = resolveResponseContentType env (fst (snd (hydrate env r arg)))
                 (default_response_content_type opts))"
proof -
  let ?before = "\<lambda>x. case arg of None \<Rightarrow> x | Some opts \<Rightarrow> attach_properties env x opts"
  have same: "response_content_type (fst (snd (hydrate env (r\<lparr>body := b\<rparr>) arg)))
      = response_content_type (?before r)" for b
  proof -
    have "response_content_type (fst (snd (hydrate env (r\<lparr>body := b\<rparr>) arg)))
        = response_content_type (?before (r\<lparr>body := b\<rparr>))"
      using only_body_fields[OF hydrate_frame[where arg=arg and r="r\<lparr>body := b\<rparr>" and env=env]]
      by simp
    also have "\<dots> = response_content_type (?before r)"
      by (cases arg) (simp_all add: attach_properties_body)
    finally show ?thesis .
  qed
  have fields: "parsed_body (fst (snd (hydrate env r arg))) = parsed_body (?before r)"
    using only_body_fields[OF hydrate_frame[where arg=arg and r=r and env=env]] by simp
  have kept: "parsed_body (fst (snd (hydrate env r arg))) = parsed_body r"
    unfolding fields by (cases arg) (simp_all add: attach_properties_kept)
  have resolved: "body_source env (fst (snd (hydrate env r arg))) = JUndefined
         \<and> response_content_type (fst (snd (hydrate env r arg)))
             = resolveResponseContentType env (fst (snd (hydrate env r arg)))
                 (default_response_content_type opts)"
    if arg: "arg = Some opts" and none: "parsed_body r = JUndefined" for opts
  proof -
    let ?f = "fst (snd (hydrate env r arg))"
    have ob: "only_body (attach_properties env r opts) ?f"
      using hydrate_frame[where arg=arg and r=r and env=env] arg by simp
    have "body_source env ?f = JUndefined"
      using kept none by (simp add: body_source_def)
    moreover have "response_content_type ?f =
        resolveResponseContentType env (attach_properties env r opts)
          (default_response_content_type opts)"
      using only_body_fields[OF ob] attach_properties_resolved[of env r opts] by simp
    moreover have "resolveResponseContentType env ?f (default_response_content_type opts)
        = resolveResponseContentType env (attach_properties env r opts)
            (default_response_content_type opts)"
      using only_body_resolve[OF ob] .
    ultimately show ?thesis by simp
  qed
  from same[of b] same[of b'] kept resolved show ?thesis by simp
qed

lemma parse_json_asks_html:
  "parse_json ''{\"response_content_type\":\"text/html\"}''
     = Inr (JObj [(''response_content_type'', JStr ''text/html'')])"
  by (simp add: json_eval)

lemma hydrate_asks_html:
  "hydrate runtime
     (incoming ''/users'' [(''Content-Length'', ''40''), (''Content-Type'', ''application/json'')]
        ''{\"response_content_type\":\"text/html\"}'')
     (Some (options_with_memory None))
   = (Inr \<lparr>content_type = JStr ''application/json'',
            data = JObj [(''response_content_type'', JStr ''text/html'')]\<rparr>,
      (incoming ''/users'' [(''Content-Length'', ''40''), (''Content-Type'', ''application/json'')] [])
        \<lparr>url_path := JStr ''/users'', url_query_params := [],
         response_content_type := JStr ''application/json''\<rparr>,
      Some (options_with_memory (Some 134217728)))"
  by (simp add: hydrate_eval parseBody_def hasBody_def decode_eval parse_json_asks_html
      request_eval lookup_eval options_eval)

theorem hydrate_body_noninterference_witness:
  "response_content_type (fst (snd (hydrate runtime
     (incoming ''/users'' [(''Content-Length'', ''40''), (''Content-Type'', ''application/json'')]
        ''{\"response_content_type\":\"text/html\"}'')
     (Some (options_with_memory None))))) = JStr ''application/json''
   \<and> response_content_type (fst (snd (hydrate runtime
     (incoming ''/users'' [(''Content-Length'', ''40''), (''Content-Type'', ''application/json'')]
        ''{\"response_content_type\":\"text/xml\"} '')
     (Some (options_with_memory None))))) = JStr ''application/json''
   \<and> parsed_body (fst (snd (hydrate runtime
     (incoming ''/users'' [(''Content-Length'', ''40''), (''Content-Type'', ''application/json'')]
        ''{\"response_content_type\":\"text/html\"}'')
     (Some (options_with_memory None))))) = JUndefined"
proof -
  let ?hs = "[(''Content-Length'', ''40''), (''Content-Type'', ''application/json'')]"
  have upd: "(incoming ''/users'' ?hs [])\<lparr>body := b\<rparr> = incoming ''/users'' ?hs b" for b
    by (simp add: incoming_def)
  have none: "parsed_body (incoming ''/users'' ?hs b) = JUndefined" for b
    by (simp add: incoming_def)
  show ?thesis
    using hydrate_body_noninterference[where env=runtime and r="incoming ''/users'' ?hs []"
        and b="''{\"response_content_type\":\"text/html\"}''"
        and arg="Some (options_with_memory None)"
        and b'="''{\"response_content_type\":\"text/xml\"} ''"]
      hydrate_body_noninterference[where env=runtime
        and r="incoming ''/users'' ?hs ''{\"response_content_type\":\"text/html\"}''"
        and arg="Some (options_with_memory None)"]
    by (simp add: upd none hydrate_asks_html)
qed

section \<open>The branches of \<^verbatim>\<open>parseBody\<close>\<close>

lemmas length_eval = hasBody_def hasBody_value_def parseInt_def white_space_def greater_zero_def
  digit_value_def digits_value_def


lemma ParsedBody_overwritten:
  "(ret :: ParsedBody)\<lparr>data := d, content_type := c\<rparr> = \<lparr>content_type = c, data = d\<rparr>"
  by simp








lemma no_content_type_branch_skips:
  "ToBoolean (js_of ct) \<Longrightarrow> no_content_type_branch env ct r ret = (Inr ret, r)"
  by (simp add: no_content_type_branch_def)


lemma decode_present:
  "ToBoolean (js_of ct) \<Longrightarrow>
   decode env ct m r ret =
     (case multipart_branch env ct m r ret of
        (Inl e, r2) \<Rightarrow> (Inl e, r2)
      | (Inr ret2, r2) \<Rightarrow>
          (case json_branch env ct r2 ret2 of
             (Inl e, r3) \<Rightarrow> (Inl e, r3)
           | (Inr ret3, r3) \<Rightarrow> urlencoded_branch env ct r3 ret3))"
  by (simp add: decode_def no_content_type_branch_skips)











lemma parse_json_5: "parse_json ''5'' = Inr (JNum 5)"
  by (simp add: json_eval)

lemma multipart_branch_in_order:
  "c \<noteq> [] \<Longrightarrow> includes_str c ''multipart/form-data'' \<Longrightarrow>
   multipart_branch env (Some c) m r ret =
     (case branch_decoder env c m Multipart r of
        (Inl e, r') \<Rightarrow> (Inl (Error (branch_message Multipart) e), r')
      | (Inr d, r') \<Rightarrow> (Inr \<lparr>content_type = JStr (branch_name Multipart), data = d\<rparr>, r'))"
  by (simp add: multipart_branch_def split: option.splits prod.splits sum.splits)

lemma json_branch_in_order:
  "c \<noteq> [] \<Longrightarrow> includes_str c ''application/json'' \<Longrightarrow>
   json_branch env (Some c) r ret =
     (case branch_decoder env c m Json r of
        (Inl e, r') \<Rightarrow> (Inl (Error (branch_message Json) e), r')
      | (Inr d, r') \<Rightarrow> (Inr \<lparr>content_type = JStr (branch_name Json), data = d\<rparr>, r'))"
  by (simp add: json_branch_def split: option.splits prod.splits sum.splits)

lemma urlencoded_branch_in_order:
  "c \<noteq> [] \<Longrightarrow> includes_str c ''application/x-www-form-urlencoded'' \<Longrightarrow>
   urlencoded_branch env (Some c) r ret =
     (case branch_decoder env c m Urlencoded r of
        (Inl e, r') \<Rightarrow> (Inl (Error (branch_message Urlencoded) e), r')
      | (Inr d, r') \<Rightarrow> (Inr \<lparr>content_type = JStr (branch_name Urlencoded), data = d\<rparr>, r'))"
  by (simp add: urlencoded_branch_def split: option.splits prod.splits sum.splits)

lemma branch_skipped:
  "\<not> includes_str c ''multipart/form-data'' \<Longrightarrow> multipart_branch env (Some c) m r ret = (Inr ret, r)"
  "\<not> includes_str c ''application/json'' \<Longrightarrow> json_branch env (Some c) r ret = (Inr ret, r)"
  "\<not> includes_str c ''application/x-www-form-urlencoded'' \<Longrightarrow>
     urlencoded_branch env (Some c) r ret = (Inr ret, r)"
  by (simp_all add: multipart_branch_def json_branch_def urlencoded_branch_def)

lemma decode_in_order:
  assumes c: "c \<noteq> []"
  shows "decode env (Some c) m r ret = in_order env c m (matching c) r ret"
proof -
  have present: "ToBoolean (js_of (Some c))" using c by (simp add: js_of_def)
  show ?thesis
  proof (cases "includes_str c ''multipart/form-data''")
    case M: True
    show ?thesis
    proof (cases "includes_str c ''application/json''")
      case J: True
      show ?thesis
      proof (cases "includes_str c ''application/x-www-form-urlencoded''")
        case U: True
        show ?thesis
          unfolding decode_present[OF present] multipart_branch_in_order[OF c M]
            json_branch_in_order[OF c J, where m=m] urlencoded_branch_in_order[OF c U, where m=m]
          using M J U by (simp add: matching_def split: prod.splits sum.splits)
      next
        case U: False
        show ?thesis
          unfolding decode_present[OF present] multipart_branch_in_order[OF c M]
            json_branch_in_order[OF c J, where m=m] branch_skipped(3)[OF U]
          using M J U by (simp add: matching_def split: prod.splits sum.splits)
      qed
    next
      case J: False
      show ?thesis
      proof (cases "includes_str c ''application/x-www-form-urlencoded''")
        case U: True
        show ?thesis
          unfolding decode_present[OF present] multipart_branch_in_order[OF c M]
            branch_skipped(2)[OF J] urlencoded_branch_in_order[OF c U, where m=m]
          using M J U by (simp add: matching_def split: prod.splits sum.splits)
      next
        case U: False
        show ?thesis
          unfolding decode_present[OF present] multipart_branch_in_order[OF c M]
            branch_skipped(2)[OF J] branch_skipped(3)[OF U]
          using M J U by (simp add: matching_def split: prod.splits sum.splits)
      qed
    qed
  next
    case M: False
    show ?thesis
    proof (cases "includes_str c ''application/json''")
      case J: True
      show ?thesis
      proof (cases "includes_str c ''application/x-www-form-urlencoded''")
        case U: True
        show ?thesis
          unfolding decode_present[OF present] branch_skipped(1)[OF M]
            json_branch_in_order[OF c J, where m=m] urlencoded_branch_in_order[OF c U, where m=m]
          using M J U by (simp add: matching_def split: prod.splits sum.splits)
      next
        case U: False
        show ?thesis
          unfolding decode_present[OF present] branch_skipped(1)[OF M]
            json_branch_in_order[OF c J, where m=m] branch_skipped(3)[OF U]
          using M J U by (simp add: matching_def split: prod.splits sum.splits)
      qed
    next
      case J: False
      show ?thesis
      proof (cases "includes_str c ''application/x-www-form-urlencoded''")
        case U: True
        show ?thesis
          unfolding decode_present[OF present] branch_skipped(1)[OF M]
            branch_skipped(2)[OF J] urlencoded_branch_in_order[OF c U, where m=m]
          using M J U by (simp add: matching_def split: prod.splits sum.splits)
      next
        case U: False
        show ?thesis
          unfolding decode_present[OF present] branch_skipped(1)[OF M]
            branch_skipped(2)[OF J] branch_skipped(3)[OF U]
          using M J U by (simp add: matching_def split: prod.splits sum.splits)
      qed
    qed
  qed
qed

lemma in_order_snoc:
  "in_order env c m (ks @ [k]) r ret =
     (case in_order env c m ks r ret of
        (Inl e, r1) \<Rightarrow> (Inl e, r1)
      | (Inr ret1, r1) \<Rightarrow>
          (case branch_decoder env c m k r1 of
             (Inl e, r2) \<Rightarrow> (Inl (Error (branch_message k) e), r2)
           | (Inr d, r2) \<Rightarrow> (Inr \<lparr>content_type = JStr (branch_name k), data = d\<rparr>, r2)))"
  by (induction ks arbitrary: r ret) (auto split: prod.splits sum.splits)

text \<open>
  C5. In \<^verbatim>\<open>parseBody\<close> the branches for \<^verbatim>\<open>multipart/form-data\<close>, \<^verbatim>\<open>application/json\<close> and
  \<^verbatim>\<open>application/x-www-form-urlencoded\<close> are independent statements run in that order.
  For a \<^verbatim>\<open>Content-Type\<close> header that is there and not empty, what \<^verbatim>\<open>parseBody\<close> returns
  or throws, and the request it leaves, are those of running every branch whose text
  the header contains, one after the other in that order: each on the stream as the
  branches before it have left it, the first error ending the method. So when
  \<^verbatim>\<open>parseBody\<close> returns, every matching branch before the last has run and succeeded,
  and \<^verbatim>\<open>content_type\<close> and \<^verbatim>\<open>data\<close> are those of the last matching branch, which has
  overwritten both. The order shows: a header that contains \<^verbatim>\<open>application/json\<close> and not
  \<^verbatim>\<open>multipart/form-data\<close>, on a body that is no JSON text, makes \<^verbatim>\<open>parseBody\<close> throw the
  error of the JSON branch with the stream read, whether or not the header also contains
  \<^verbatim>\<open>application/x-www-form-urlencoded\<close>.
\<close>

theorem parseBody_branches_in_order:
  assumes ma: "memory_allocation opts = Some ma"
    and ct: "headers_get (request.headers r) ''Content-Type'' = Some c"
    and c: "c \<noteq> []"
  shows "fst (parseBody env r (Some opts))
           = fst (in_order env c (normalized_memory ma) (matching c) r
                    \<lparr>content_type = JUndefined, data = JUndefined\<rparr>)
       \<and> fst (snd (parseBody env r (Some opts)))
           = snd (in_order env c (normalized_memory ma) (matching c) r
                    \<lparr>content_type = JUndefined, data = JUndefined\<rparr>)
       \<and> (\<forall>ks k pb. matching c = ks @ [k] \<and> fst (parseBody env r (Some opts)) = Inr pb \<longrightarrow>
             (\<exists>ret1 r1 d r2.
                in_order env c (normalized_memory ma) ks r
                  \<lparr>content_type = JUndefined, data = JUndefined\<rparr> = (Inr ret1, r1)
                \<and> branch_decoder env c (normalized_memory ma) k r1 = (Inr d, r2)
                \<and> pb = \<lparr>content_type = JStr (branch_name k), data = d\<rparr>))
       \<and> (\<forall>e. includes_str c ''application/json'' \<and> \<not> includes_str c ''multipart/form-data''
               \<and> JSON_parse env (body r) = Inl e \<longrightarrow>
             fst (parseBody env r (Some opts))
               = Inl (Error ''Error reading request body as application/json.'' e)
             \<and> body (fst (snd (parseBody env r (Some opts)))) = [])"
proof -
  let ?m = "normalized_memory ma"
  let ?init = "\<lparr>content_type = JUndefined, data = JUndefined\<rparr>"
  have eq: "fst (parseBody env r (Some opts)) = fst (in_order env c ?m (matching c) r ?init)"
    "fst (snd (parseBody env r (Some opts))) = snd (in_order env c ?m (matching c) r ?init)"
    by (simp_all add: parseBody_decode[OF ma] ct decode_in_order[OF c])
  have last: "\<exists>ret1 r1 d r2.
        in_order env c ?m ks r ?init = (Inr ret1, r1)
        \<and> branch_decoder env c ?m k r1 = (Inr d, r2)
        \<and> pb = \<lparr>content_type = JStr (branch_name k), data = d\<rparr>"
    if ks: "matching c = ks @ [k]" and ok: "fst (parseBody env r (Some opts)) = Inr pb" for ks k pb
  proof -
    from ok have run: "fst (in_order env c ?m (ks @ [k]) r ?init) = Inr pb"
      by (simp add: eq ks)
    obtain x1 r1 where s1: "in_order env c ?m ks r ?init = (x1, r1)"
      by (cases "in_order env c ?m ks r ?init")
    from run s1 obtain ret1 where x1: "x1 = Inr ret1"
      by (cases x1) (simp_all add: in_order_snoc)
    obtain x2 r2 where s2: "branch_decoder env c ?m k r1 = (x2, r2)"
      by (cases "branch_decoder env c ?m k r1")
    from run s1 x1 s2 obtain d where x2: "x2 = Inr d"
      by (cases x2) (simp_all add: in_order_snoc)
    from run s1 x1 s2 x2 have "pb = \<lparr>content_type = JStr (branch_name k), data = d\<rparr>"
      by (simp add: in_order_snoc)
    with s1 x1 s2 x2 show ?thesis by blast
  qed
  have json_first: "fst (parseBody env r (Some opts))
        = Inl (Error ''Error reading request body as application/json.'' e)
      \<and> body (fst (snd (parseBody env r (Some opts)))) = []"
    if "includes_str c ''application/json''" "\<not> includes_str c ''multipart/form-data''"
      "JSON_parse env (body r) = Inl e" for e
    using that by (simp add: eq matching_def parseBodyAsJson_def)
  from eq last json_first show ?thesis by blast
qed

lemma parse_json_form: "parse_json ''a=1'' = Inl SyntaxError"
  by (simp add: json_eval)

theorem parseBody_branches_in_order_witness:
  "matching ''application/json, application/x-www-form-urlencoded'' = [Json, Urlencoded]
   \<and> parseBody runtime
        (incoming ''/'' [(''Content-Length'', ''3''),
           (''Content-Type'', ''application/json, application/x-www-form-urlencoded'')] ''a=1'')
        (Some (options_with_memory None))
      = (Inl (Error ''Error reading request body as application/json.'' SyntaxError),
         incoming ''/'' [(''Content-Length'', ''3''),
           (''Content-Type'', ''application/json, application/x-www-form-urlencoded'')] [],
         Some (options_with_memory (Some 134217728)))
   \<and> fst (parseBody runtime
        (incoming ''/'' [(''Content-Length'', ''1''),
           (''Content-Type'', ''application/json, application/x-www-form-urlencoded'')] ''5'')
        (Some (options_with_memory None)))
      = Inr \<lparr>content_type = JStr ''application/x-www-form-urlencoded'', data = JObj []\<rparr>"
proof -
  let ?c = "''application/json, application/x-www-form-urlencoded''"
  let ?hs = "\<lambda>n. [(''Content-Length'', n), (''Content-Type'', ?c)]"
  have ma: "memory_allocation (options_with_memory None) = Some \<lparr>multipart_form_data = None\<rparr>"
    by (simp add: options_eval)
  have ct: "headers_get (request.headers (incoming ''/'' (?hs n) b)) ''Content-Type'' = Some ?c" for n b
    by (simp add: request_eval)
  have c: "?c \<noteq> []" by simp
  have mt: "matching ?c = [Json, Urlencoded]"
    by (simp add: matching_def)
  have opts: "snd (snd (parseBody runtime (incoming ''/'' (?hs ''3'') ''a=1'')
      (Some (options_with_memory None)))) = Some (options_with_memory (Some 134217728))"
    unfolding parseBody_decode[OF ma] by (simp add: normalized_memory_def options_eval)
  note t1 = parseBody_branches_in_order[OF ma ct[of "''3''" "''a=1''"] c, where env=runtime]
  note t2 = parseBody_branches_in_order[OF ma ct[of "''1''" "''5''"] c, where env=runtime]
  have r1: "fst (parseBody runtime (incoming ''/'' (?hs ''3'') ''a=1'') (Some (options_with_memory None)))
      = Inl (Error ''Error reading request body as application/json.'' SyntaxError)"
    "fst (snd (parseBody runtime (incoming ''/'' (?hs ''3'') ''a=1'') (Some (options_with_memory None))))
      = incoming ''/'' (?hs ''3'') []"
    unfolding t1[THEN conjunct1] t1[THEN conjunct2, THEN conjunct1] mt
    by (simp_all add: parseBodyAsJson_def runtime_def parse_json_form incoming_def)
  have r2: "fst (parseBody runtime (incoming ''/'' (?hs ''1'') ''5'') (Some (options_with_memory None)))
      = Inr \<lparr>content_type = JStr ''application/x-www-form-urlencoded'', data = JObj []\<rparr>"
    unfolding t2[THEN conjunct1] mt
    by (simp add: parseBodyAsJson_def parseBodyAsFormUrlEncoded_def runtime_def parse_json_5
        incoming_def StringService_parseQueryParamsString_def)
  from mt r1 r2 opts show ?thesis
    by (simp add: prod_eq_iff)
qed

section \<open>The data of the parsed body\<close>








section \<open>Requests without a body\<close>

text \<open>
  C1. The claim: when \<^verbatim>\<open>hasBody\<close> is false, \<^verbatim>\<open>parseBody\<close> returns \<^verbatim>\<open>content_type\<close> and
  \<^verbatim>\<open>data\<close> both \<^verbatim>\<open>undefined\<close> and does not read the stream. The test of line 293 is on
  the promise that \<^verbatim>\<open>hasBody\<close> returns, which is truthy whatever it holds, so the return
  of line 294 is never reached. At a request without \<^verbatim>\<open>Content-Length\<close> and without
  \<^verbatim>\<open>Content-Type\<close>, for which \<^verbatim>\<open>hasBody\<close> gives (a promise of) false, \<^verbatim>\<open>parseBody\<close> reads
  the stream to its end and returns the decoded form.
\<close>

theorem parseBody_reads_without_content_length:
  "hasBody (incoming ''/'' [(''Transfer-Encoding'', ''chunked'')] ''a=1'') = JPromise (JBool False)
   \<and> parseBody runtime (incoming ''/'' [(''Transfer-Encoding'', ''chunked'')] ''a=1'')
        (Some (options_with_memory None))
      = (Inr \<lparr>content_type = JStr ''application/x-www-form-urlencoded'',
               data = JObj [(''a'', JStr ''1'')]\<rparr>,
         incoming ''/'' [(''Transfer-Encoding'', ''chunked'')] [],
         Some (options_with_memory (Some 134217728)))"
  by (simp add: parseBody_def length_eval decode_eval request_eval runtime_def options_eval
      StringService_parseQueryParamsString_def decode_pair_def)

section \<open>The accessors of the body\<close>

text \<open>
  C4, as amended. For a parsed body whose \<^verbatim>\<open>data\<close> is neither \<^verbatim>\<open>undefined\<close> nor
  \<^verbatim>\<open>null\<close>, and a name that is neither an own property of \<^verbatim>\<open>data\<close> nor one it inherits,
  \<^verbatim>\<open>getRequestBodyParam\<close> and the accessor \<^verbatim>\<open>getBodyParam\<close> return \<^verbatim>\<open>undefined\<close> and do
  not raise. When \<^verbatim>\<open>data\<close> is \<^verbatim>\<open>undefined\<close> or \<^verbatim>\<open>null\<close> both raise a \<^verbatim>\<open>TypeError\<close>.
\<close>

theorem body_param_absent:
  "(data pb \<noteq> JUndefined \<and> data pb \<noteq> JNull \<and> own_property (data pb) name = None
      \<and> inherited env (data pb) name = None \<longrightarrow>
        getRequestBodyParam env pb name = Inr JUndefined \<and> getBodyParam env pb name = Inr JUndefined)
   \<and> (data pb = JUndefined \<or> data pb = JNull \<longrightarrow>
        getRequestBodyParam env pb name = Inl TypeError \<and> getBodyParam env pb name = Inl TypeError)"
proof -
  have "Get env (data pb) name = Inr JUndefined"
    if "data pb \<noteq> JUndefined" "data pb \<noteq> JNull" "own_property (data pb) name = None"
      "inherited env (data pb) name = None"
    using that by (simp add: Get_def property_value_def)
  moreover have "Get env (data pb) name = Inl TypeError"
    if "data pb = JUndefined \<or> data pb = JNull"
    using that by (auto simp: Get_def)
  ultimately show ?thesis
    by (simp add: getRequestBodyParam_def getBodyParam_def)
qed

theorem body_param_absent_witness:
  "getRequestBodyParam runtime \<lparr>content_type = JStr ''application/x-www-form-urlencoded'',
       data = JObj [(''a'', JStr ''1'')]\<rparr> ''b'' = Inr JUndefined
   \<and> getBodyParam runtime \<lparr>content_type = JStr ''application/x-www-form-urlencoded'',
       data = JObj [(''a'', JStr ''1'')]\<rparr> ''b'' = Inr JUndefined
   \<and> getRequestBodyParam runtime \<lparr>content_type = JUndefined, data = JUndefined\<rparr> ''b''
       = Inl TypeError"
  using body_param_absent[of "\<lparr>content_type = JStr ''application/x-www-form-urlencoded'',
       data = JObj [(''a'', JStr ''1'')]\<rparr>" "''b''" runtime]
    body_param_absent[of "\<lparr>content_type = JUndefined, data = JUndefined\<rparr>" "''b''" runtime]
  by (simp add: runtime_def Object_prototype_def)

text \<open>The claim C4 as it is written includes a \<^verbatim>\<open>data\<close> that is \<^verbatim>\<open>undefined\<close>. A request
  with a body of type \<^verbatim>\<open>text/plain\<close> is hydrated with such a parsed body, and the accessor
  raises a \<^verbatim>\<open>TypeError\<close> for every name. Also, a name that is no key of the mapping can
  be a member of \<^verbatim>\<open>Object.prototype\<close>: the accessor returns that member.\<close>

theorem body_param_of_undefined_data:
  "fst (hydrate runtime
     (incoming ''/notes'' [(''Content-Length'', ''5''), (''Content-Type'', ''text/plain'')] ''hello'')
     (Some (options_with_memory None)))
     = Inr \<lparr>content_type = JUndefined, data = JUndefined\<rparr>
   \<and> getBodyParam runtime \<lparr>content_type = JUndefined, data = JUndefined\<rparr> ''title'' = Inl TypeError
   \<and> getRequestBodyParam runtime \<lparr>content_type = JUndefined, data = JUndefined\<rparr> ''title''
       = Inl TypeError
   \<and> map_of [(''a'', JStr ''1'')] ''constructor'' = None
   \<and> getRequestBodyParam runtime \<lparr>content_type = JStr ''application/x-www-form-urlencoded'',
       data = JObj [(''a'', JStr ''1'')]\<rparr> ''constructor'' = Inr (JBuiltin ''constructor'')"
  by (simp add: hydrate_eval parseBody_def hasBody_def decode_eval request_eval lookup_eval
      options_eval getBodyParam_def getRequestBodyParam_def)

end
